theory Spec2Isabelle
  imports Main
begin

section \<open>The outbound queue manager of the browser tracker (out\_queue.ts)\<close>

text \<open>
  A shallow embedding of \<^verbatim>\<open>OutQueueManager\<close>. The closure variables of the manager are
  the fields of a state record, the constructor arguments that never change are a
  configuration record, and the browser (clock, storage quota, beacon, JSON and string
  builtins) is an environment record passed to every operation. Asynchronous completions
  (request done, timers, image events) are functions too: each takes the variables its
  closure captured and the state at the moment the browser calls it.
\<close>

subsection \<open>Strings and the byte accountant\<close>

text \<open>A JavaScript string is a sequence of UTF-16 code units.\<close>

type_synonym jsstring = "nat list"

definition js :: "string \<Rightarrow> jsstring" where
  "js s = map of_char s"

text \<open>
  \<^verbatim>\<open>getUTF8Length\<close>: the loop over \<^verbatim>\<open>i\<close>; a surrogate code unit counts four bytes and
  skips the unit after it.
\<close>

fun getUTF8Length :: "jsstring \<Rightarrow> nat" where
  "getUTF8Length [] = 0"
| "getUTF8Length (code # rest) =
     (if code \<le> 0x7f then 1 + getUTF8Length rest
      else if code \<le> 0x7ff then 2 + getUTF8Length rest
      else if code \<ge> 0xd800 \<and> code \<le> 0xdfff then 4 + getUTF8Length (drop 1 rest)
      else if code < 0xffff then 3 + getUTF8Length rest
      else 4 + getUTF8Length rest)"

subsection \<open>Queue entries\<close>

text \<open>
  \<^verbatim>\<open>PostEvent\<close> is the record the source declares. The queue is read back from storage
  with \<^verbatim>\<open>JSON.parse\<close>, so an entry can be any JSON value; the entries are classified by
  what the code's tests can tell apart: a post record (an object with \<^verbatim>\<open>evt\<close> and a
  numeric \<^verbatim>\<open>bytes\<close>), a string, \<^verbatim>\<open>null\<close>, another object or array (with neither
  \<^verbatim>\<open>evt\<close> nor \<^verbatim>\<open>bytes\<close>; it carries its \<^verbatim>\<open>String(x)\<close> rendering), and a number or
  boolean.
\<close>

record PostEvent =
  evt :: "(jsstring \<times> jsstring) list"
  bytes :: int

datatype queued =
    PostRecord PostEvent
  | GetRecord jsstring
  | NullEntry
  | ObjectEntry jsstring
  | PrimitiveEntry

datatype jstype = TString | TObject | TOther

fun typeof :: "queued \<Rightarrow> jstype" where
  "typeof (PostRecord p) = TObject"
| "typeof (GetRecord q) = TString"
| "typeof NullEntry = TObject"
| "typeof (ObjectEntry r) = TObject"
| "typeof PrimitiveEntry = TOther"

datatype error = NoCollectorConfigured | TypeError | SyntaxError | SecurityError

text \<open>
  \<^verbatim>\<open>postable\<close>: \<^verbatim>\<open>typeof queue[0] === 'object' && 'evt' in queue[0]\<close>. On an empty queue
  \<^verbatim>\<open>queue[0]\<close> is undefined; \<^verbatim>\<open>'evt' in null\<close> throws a TypeError.
\<close>

fun postable :: "queued list \<Rightarrow> error + bool" where
  "postable [] = Inr False"
| "postable (PostRecord p # q) = Inr True"
| "postable (NullEntry # q) = Inl TypeError"
| "postable (x # q) = Inr False"

subsection \<open>Retry classifier\<close>

definition isSuccessfulRequest :: "int \<Rightarrow> bool" where
  "isSuccessfulRequest statusCode \<longleftrightarrow> statusCode \<ge> 200 \<and> statusCode < 300"

record config =
  usePost :: bool
  useXhr :: bool
  useBeacon :: bool
  postPath :: jsstring
  path :: jsstring
  maxPostBytes :: int
  maxGetBytes :: int
  useStm :: bool
  maxLocalStorageQueueSize :: int
  retryStatusCodes :: "int list"
  dontRetryStatusCodes :: "int list"
  idService :: "jsstring option"
  retryFailedRequests :: bool

definition shouldRetryForStatusCode :: "config \<Rightarrow> int \<Rightarrow> bool" where
  "shouldRetryForStatusCode cfg statusCode =
     (if isSuccessfulRequest statusCode then False
      else if \<not> retryFailedRequests cfg then False
      else if statusCode \<in> set (retryStatusCodes cfg) then True
      else statusCode \<notin> set (dontRetryStatusCodes cfg))"

subsection \<open>Batch selection\<close>

text \<open>
  A JavaScript number that is an integer or NaN: reading \<^verbatim>\<open>bytes\<close> from an entry that
  has none gives undefined, and adding undefined gives NaN, which no comparison accepts.
  Reading a property of \<^verbatim>\<open>null\<close> throws.
\<close>

datatype jsnum = Num int | NaN

fun js_add :: "jsnum \<Rightarrow> jsnum \<Rightarrow> jsnum" where
  "js_add (Num a) (Num b) = Num (a + b)"
| "js_add a b = NaN"

fun js_ge :: "jsnum \<Rightarrow> int \<Rightarrow> bool" where
  "js_ge (Num a) m = (a \<ge> m)"
| "js_ge NaN m = False"

fun bytes_prop :: "queued \<Rightarrow> error + jsnum" where
  "bytes_prop (PostRecord p) = Inr (Num (bytes p))"
| "bytes_prop NullEntry = Inl TypeError"
| "bytes_prop x = Inr NaN"

text \<open>The \<^verbatim>\<open>while\<close> loop of \<^verbatim>\<open>chooseHowManyToSend\<close>, with its two variables.\<close>

function chooseHowManyToSend_loop :: "int \<Rightarrow> queued list \<Rightarrow> nat \<Rightarrow> jsnum \<Rightarrow> error + nat" where
  "chooseHowManyToSend_loop maxBytes queue numberToSend byteCount =
     (if numberToSend < length queue then
        (case bytes_prop (queue ! numberToSend) of
           Inl e \<Rightarrow> Inl e
         | Inr b \<Rightarrow>
             (if js_ge (js_add byteCount b) maxBytes then Inr numberToSend
              else chooseHowManyToSend_loop maxBytes queue (numberToSend + 1) (js_add byteCount b)))
      else Inr numberToSend)"
  by pat_completeness auto
termination
  by (relation "measure (\<lambda>(m, q, n, b). length q - n)") auto

declare chooseHowManyToSend_loop.simps [simp del]

definition chooseHowManyToSend :: "int \<Rightarrow> queued list \<Rightarrow> error + nat" where
  "chooseHowManyToSend maxBytes queue = chooseHowManyToSend_loop maxBytes queue 0 (Num 0)"

text \<open>The cumulative byte size of the first \<open>k\<close> post records.\<close>

definition prefix_bytes :: "nat \<Rightarrow> PostEvent list \<Rightarrow> int" where
  "prefix_bytes k ps = sum_list (map bytes (take k ps))"

subsection \<open>Environment, state and effects\<close>

text \<open>
  A payload value is a string, a number or a boolean. What the browser decides: the
  builtins \<^verbatim>\<open>toString\<close>, \<^verbatim>\<open>encodeURIComponent\<close> and \<^verbatim>\<open>JSON.stringify\<close> (of an event and of
  a queue), the clock reading \<^verbatim>\<open>new Date().getTime()\<close> as its digits, whether a storage
  write of a value goes through, and what \<^verbatim>\<open>navigator.sendBeacon\<close> answers.
\<close>

datatype beacon_result = BeaconTrue | BeaconFalse | BeaconThrows

datatype jsvalue = VString jsstring | VNumber int | VBoolean bool

record environment =
  toString :: "jsvalue \<Rightarrow> jsstring"
  encodeURIComponent :: "jsstring \<Rightarrow> jsstring"
  JSON_stringify_evt :: "(jsstring \<times> jsstring) list \<Rightarrow> jsstring"
  JSON_stringify_queue :: "queued list \<Rightarrow> jsstring"
  now :: jsstring
  setItemSucceeds :: "jsstring \<Rightarrow> bool"
  sendBeacon :: "jsstring \<Rightarrow> (jsstring \<times> jsstring) list list \<Rightarrow> beacon_result"

text \<open>
  The batch handed to the callbacks: the events of a request, the post records of an
  accepted beacon, or the URL of a GET request.
\<close>

datatype batch =
    Events "(jsstring \<times> jsstring) list list"
  | PostEvents "PostEvent list"
  | Urls "jsstring list"

record RequestFailure =
  status :: int
  message :: jsstring
  events :: batch
  willRetry :: bool

text \<open>
  The observable effects in the order the code performs them. A callback is recorded as
  the call the code makes when the callback is registered. What the caller's function
  then does is the caller's: it is taken to leave the manager alone, except in the timer
  of a queue request, which is also given for a caller that calls back into the manager.
\<close>

datatype effect =
    Warn int int
  | LogError int
  | XhrSendPost jsstring bool "(jsstring \<times> jsstring) list list"
  | XhrSendGet jsstring bool
  | XhrAbort
  | BeaconSend jsstring "(jsstring \<times> jsstring) list list"
  | ImageSrc jsstring
  | OnRequestSuccess batch
  | OnRequestFailure RequestFailure

text \<open>
  What is in flight, with the variables its callbacks captured: a queue request armed
  by \<^verbatim>\<open>setXhrCallbacks\<close> (\<^verbatim>\<open>numberToSend\<close>, \<^verbatim>\<open>batch\<close>; completion and timer exclude each
  other), the identity-service request, a pixel image that is still \<^verbatim>\<open>loading\<close> (with
  whether its timer is still to fire), and a request of
  \<^verbatim>\<open>sendPostRequestWithoutQueueing\<close>.
\<close>

datatype pending =
    Xhr nat batch
  | IdService
  | Image bool
  | Bypass batch

record state =
  executingQueue :: bool
  configCollectorUrl :: "jsstring option"
  outQueue :: "queued list"
  idServiceCalled :: bool
  useLocalStorage :: bool
  anonymousTracking :: bool
  bufferSize :: int
  storage :: "jsstring option"
  effects :: "effect list"
  inflight :: "pending list"

text \<open>
  \<^verbatim>\<open>configCollectorUrl\<close> is \<open>None\<close> (undefined) until it is first assigned; every
  assignment is a string concatenation. \<open>storage\<close> is the value stored under the queue's
  name.

  Modelled from the spec: \<^verbatim>\<open>isString\<close> of \<^verbatim>\<open>helpers\<close>, which is not among the sources. It
  says whether its argument is a string; of \<^verbatim>\<open>configCollectorUrl\<close>, whether a URL has
  been configured.
\<close>

definition isString :: "jsstring option \<Rightarrow> bool" where
  "isString v \<longleftrightarrow> v \<noteq> None"

text \<open>
  A call returns or throws; a JavaScript exception keeps every assignment made before
  it, so both carry the state.
\<close>

datatype result = Returned state | Thrown error state

fun result_state :: "result \<Rightarrow> state" where
  "result_state (Returned s) = s"
| "result_state (Thrown e s) = s"

definition emit :: "effect \<Rightarrow> state \<Rightarrow> state" where
  "emit e s = s\<lparr>effects := effects s @ [e]\<rparr>"

subsection \<open>Payload rendering\<close>

text \<open>
  A payload is the list of its own keys in enumeration order with their values.
  \<^verbatim>\<open>getQuerystring\<close> writes the keys other than \<^verbatim>\<open>co\<close> and \<^verbatim>\<open>cx\<close> first, then those two.
\<close>

definition lowPriorityKeys :: "jsstring list" where
  "lowPriorityKeys = [js ''co'', js ''cx'']"

fun querystring_pairs :: "environment \<Rightarrow> (jsstring \<times> jsvalue) list \<Rightarrow> bool \<Rightarrow> jsstring" where
  "querystring_pairs env [] firstPair = []"
| "querystring_pairs env ((key, v) # request) firstPair =
     (if key \<notin> set lowPriorityKeys then
        (if \<not> firstPair then js ''&'' else []) @
        encodeURIComponent env key @ js ''='' @ encodeURIComponent env (toString env v) @
        querystring_pairs env request False
      else querystring_pairs env request firstPair)"

fun querystring_context :: "environment \<Rightarrow> (jsstring \<times> jsvalue) list \<Rightarrow> jsstring list \<Rightarrow> jsstring" where
  "querystring_context env request [] = []"
| "querystring_context env request (contextKey # keys) =
     (case map_of request contextKey of
        Some v \<Rightarrow> js ''&'' @ contextKey @ js ''='' @ encodeURIComponent env (toString env v)
      | None \<Rightarrow> []) @ querystring_context env request keys"

definition getQuerystring :: "environment \<Rightarrow> (jsstring \<times> jsvalue) list \<Rightarrow> jsstring" where
  "getQuerystring env request =
     js ''?'' @ querystring_pairs env request True @ querystring_context env request lowPriorityKeys"

definition getBody :: "environment \<Rightarrow> (jsstring \<times> jsvalue) list \<Rightarrow> PostEvent" where
  "getBody env request =
     (let cleanedRequest = map (\<lambda>(key, v). (key, toString env v)) request
      in \<lparr>evt = cleanedRequest, bytes = int (getUTF8Length (JSON_stringify_evt env cleanedRequest))\<rparr>)"

text \<open>\<^verbatim>\<open>obj[key] = v\<close>: overwrite the property in place, or add it last.\<close>

fun set_prop :: "jsstring \<Rightarrow> jsstring \<Rightarrow> (jsstring \<times> jsstring) list \<Rightarrow> (jsstring \<times> jsstring) list" where
  "set_prop k v [] = [(k, v)]"
| "set_prop k v ((k', v') # kvs) = (if k' = k then (k, v) # kvs else (k', v') # set_prop k v kvs)"

text \<open>
  \<^verbatim>\<open>attachStmToEvent\<close> writes \<^verbatim>\<open>stm\<close> into each event object. The events of a batch are
  the very objects the queue entries hold, so the write is seen in the queue: the
  function is given the entries, returns them updated, and says whether it threw (at the
  first entry whose \<^verbatim>\<open>evt\<close> is undefined, the entries before it already written).
\<close>

fun attachStmToEvent :: "jsstring \<Rightarrow> queued list \<Rightarrow> queued list \<times> bool" where
  "attachStmToEvent stm [] = ([], False)"
| "attachStmToEvent stm (PostRecord p # xs) =
     (let (ys, threw) = attachStmToEvent stm xs
      in (PostRecord (p\<lparr>evt := set_prop (js ''stm'') stm (evt p)\<rparr>) # ys, threw))"
| "attachStmToEvent stm (x # xs) = (x # xs, True)"

text \<open>\<^verbatim>\<open>batch.map(x => x.evt)\<close> on entries that are all post records.\<close>

fun post_events :: "queued list \<Rightarrow> PostEvent list" where
  "post_events [] = []"
| "post_events (PostRecord p # xs) = p # post_events xs"
| "post_events (x # xs) = post_events xs"

text \<open>\<^verbatim>\<open>s.replace('?', r)\<close>: the first occurrence only.\<close>

fun replace_first :: "nat \<Rightarrow> jsstring \<Rightarrow> jsstring \<Rightarrow> jsstring" where
  "replace_first c r [] = []"
| "replace_first c r (x # xs) = (if x = c then r @ xs else x # replace_first c r xs)"

text \<open>
  \<^verbatim>\<open>createGetUrl\<close> on a queue entry, given the clock reading and the collector URL: a
  string has \<^verbatim>\<open>replace\<close>; another object has not (a TypeError when \<^verbatim>\<open>useStm\<close> is on) and
  is concatenated as its rendering otherwise.
\<close>

definition createGetUrl_string :: "config \<Rightarrow> jsstring \<Rightarrow> jsstring \<Rightarrow> jsstring \<Rightarrow> jsstring" where
  "createGetUrl_string cfg time collectorUrl nextRequest =
     (if useStm cfg
      then collectorUrl @ replace_first (of_char CHR ''?'') (js ''?stm='' @ time @ js ''&'') nextRequest
      else collectorUrl @ nextRequest)"

fun createGetUrl :: "config \<Rightarrow> jsstring \<Rightarrow> jsstring \<Rightarrow> queued \<Rightarrow> error + jsstring" where
  "createGetUrl cfg time collectorUrl (GetRecord nextRequest) =
     Inr (createGetUrl_string cfg time collectorUrl nextRequest)"
| "createGetUrl cfg time collectorUrl (ObjectEntry rendering) =
     (if useStm cfg then Inl TypeError else Inr (collectorUrl @ rendering))"
| "createGetUrl cfg time collectorUrl x = Inl TypeError"

subsection \<open>Queue store\<close>

text \<open>\<^verbatim>\<open>xs.slice(0, m)\<close>; a negative \<^verbatim>\<open>m\<close> counts from the end.\<close>

definition slice0 :: "int \<Rightarrow> 'a list \<Rightarrow> 'a list" where
  "slice0 m xs = (if m \<ge> 0 then take (nat m) xs else take (length xs - nat (- m)) xs)"

text \<open>
  Modelled from the spec: \<^verbatim>\<open>attemptWriteLocalStorage\<close> of \<^verbatim>\<open>helpers\<close>, which is not among
  the sources. It tries to write the value under the queue's key, swallows a failure
  (quota exceeded, storage disabled) and answers whether the write went through.
\<close>

definition attemptWriteLocalStorage :: "environment \<Rightarrow> jsstring \<Rightarrow> state \<Rightarrow> bool \<times> state" where
  "attemptWriteLocalStorage env v s =
     (if setItemSucceeds env v then (True, s\<lparr>storage := Some v\<rparr>) else (False, s))"

definition persist :: "config \<Rightarrow> environment \<Rightarrow> state \<Rightarrow> bool \<times> state" where
  "persist cfg env s =
     attemptWriteLocalStorage env
       (JSON_stringify_queue env (slice0 (maxLocalStorageQueueSize cfg) (outQueue s))) s"

definition removeEventsFromQueue :: "config \<Rightarrow> environment \<Rightarrow> nat \<Rightarrow> state \<Rightarrow> state" where
  "removeEventsFromQueue cfg env numberToSend s =
     (let s1 = s\<lparr>outQueue := drop numberToSend (outQueue s)\<rparr>
      in if useLocalStorage s1 then snd (persist cfg env s1) else s1)"

subsection \<open>Sending\<close>

definition sendPostRequestWithoutQueueing ::
  "environment \<Rightarrow> PostEvent \<Rightarrow> jsstring \<Rightarrow> state \<Rightarrow> state" where
  "sendPostRequestWithoutQueueing env body url s =
     (let b = [set_prop (js ''stm'') (now env) (evt body)]
      in (emit (XhrSendPost url False b) s)\<lparr>inflight := inflight s @ [Bypass (Events b)]\<rparr>)"

text \<open>The \<^verbatim>\<open>readyState === 4\<close> callback of \<^verbatim>\<open>sendPostRequestWithoutQueueing\<close>.\<close>

definition bypass_onreadystatechange :: "batch \<Rightarrow> int \<Rightarrow> jsstring \<Rightarrow> state \<Rightarrow> state" where
  "bypass_onreadystatechange b xhr_status xhr_statusText s =
     (let s1 = s\<lparr>inflight := remove1 (Bypass b) (inflight s)\<rparr>
      in if isSuccessfulRequest xhr_status then emit (OnRequestSuccess b) s1
         else emit (OnRequestFailure
                \<lparr>status = xhr_status, message = xhr_statusText, events = b, willRetry = False\<rparr>) s1)"

text \<open>The failsafe loop at the head of \<^verbatim>\<open>executeQueue\<close>.\<close>

fun failsafe :: "queued list \<Rightarrow> queued list" where
  "failsafe [] = []"
| "failsafe (x # xs) =
     (if typeof x \<noteq> TString \<and> typeof x \<noteq> TObject then failsafe xs else x # xs)"

definition truthy :: "jsstring option \<Rightarrow> bool" where
  "truthy v = (case v of None \<Rightarrow> False | Some str \<Rightarrow> str \<noteq> [])"

text \<open>
  \<^verbatim>\<open>executeQueue\<close> calls itself within the same turn only after an accepted beacon; every
  other continuation is a callback. \<open>executeQueue_body\<close> is the function up to that call:
  it answers \<open>Inl\<close> the result when the call ends there, and \<open>Inr\<close> the state with which
  it calls itself.
\<close>

definition executeQueue_post ::
  "config \<Rightarrow> environment \<Rightarrow> bool \<Rightarrow> jsstring \<Rightarrow> state \<Rightarrow> result + state" where
  "executeQueue_post cfg env sync url s =
     (case chooseHowManyToSend (maxPostBytes cfg) (outQueue s) of
        Inl e \<Rightarrow> Inl (Thrown e s)
      | Inr numberToSend \<Rightarrow>
          if length (take numberToSend (outQueue s)) > 0 then
            (let (stamped, threw) = attachStmToEvent (now env) (take numberToSend (outQueue s));
                 s1 = s\<lparr>outQueue := stamped @ drop numberToSend (outQueue s)\<rparr>;
                 eventBatch = map evt (post_events stamped)
             in if threw then Inl (Thrown TypeError s1)
                else if useBeacon cfg \<and> sendBeacon env url eventBatch = BeaconTrue then
                  Inr (emit (OnRequestSuccess (PostEvents (post_events stamped)))
                        (removeEventsFromQueue cfg env numberToSend
                          (emit (BeaconSend url eventBatch) s1)))
                else
                  (let s2 = (if useBeacon cfg then emit (BeaconSend url eventBatch) s1 else s1)
                   in Inl (Returned
                        ((emit (XhrSendPost url sync eventBatch) s2)
                           \<lparr>inflight := inflight s2 @ [Xhr numberToSend (Events eventBatch)]\<rparr>))))
          else Inl (Returned s))"

definition executeQueue_get ::
  "config \<Rightarrow> environment \<Rightarrow> bool \<Rightarrow> jsstring \<Rightarrow> state \<Rightarrow> result" where
  "executeQueue_get cfg env sync collectorUrl s =
     (case createGetUrl cfg (now env) collectorUrl (hd (outQueue s)) of
        Inl e \<Rightarrow> Thrown e s
      | Inr url \<Rightarrow>
          Returned ((emit (XhrSendGet url sync) s)\<lparr>inflight := inflight s @ [Xhr 1 (Urls [url])]\<rparr>))"

definition executeQueue_image ::
  "config \<Rightarrow> environment \<Rightarrow> jsstring \<Rightarrow> state \<Rightarrow> result" where
  "executeQueue_image cfg env collectorUrl s =
     (case createGetUrl cfg (now env) collectorUrl (hd (outQueue s)) of
        Inl e \<Rightarrow> Thrown e s
      | Inr url \<Rightarrow> Returned ((emit (ImageSrc url) s)\<lparr>inflight := inflight s @ [Image True]\<rparr>))"

definition executeQueue_body ::
  "config \<Rightarrow> environment \<Rightarrow> bool \<Rightarrow> state \<Rightarrow> result + state" where
  "executeQueue_body cfg env sync s0 =
     (let s = s0\<lparr>outQueue := failsafe (outQueue s0)\<rparr>
      in if outQueue s = [] then Inl (Returned (s\<lparr>executingQueue := False\<rparr>))
         else if \<not> isString (configCollectorUrl s) then Inl (Thrown NoCollectorConfigured s)
         else
            (let collectorUrl = the (configCollectorUrl s);
                 s1 = s\<lparr>executingQueue := True\<rparr>
             in if truthy (idService cfg) \<and> \<not> idServiceCalled s1 then
                  Inl (Returned
                    ((emit (XhrSendGet (the (idService cfg)) sync) s1)
                       \<lparr>idServiceCalled := True, inflight := inflight s1 @ [IdService]\<rparr>))
                else if useXhr cfg then
                  (case postable (outQueue s1) of
                     Inl e \<Rightarrow> Inl (Thrown e s1)
                   | Inr True \<Rightarrow> executeQueue_post cfg env sync collectorUrl s1
                   | Inr False \<Rightarrow> Inl (executeQueue_get cfg env sync collectorUrl s1))
                else if anonymousTracking s1 then Inl (Returned (s1\<lparr>executingQueue := False\<rparr>))
                else
                  (case postable (outQueue s1) of
                     Inl e \<Rightarrow> Inl (Thrown e s1)
                   | Inr True \<Rightarrow> Inl (Returned (s1\<lparr>executingQueue := False\<rparr>))
                   | Inr False \<Rightarrow> Inl (executeQueue_image cfg env collectorUrl s1))))"

text \<open>The call to itself removes at least one entry first, so the recursion ends.\<close>

lemma length_attachStmToEvent: "length (fst (attachStmToEvent stm xs)) = length xs"
  by (induction stm xs rule: attachStmToEvent.induct) (auto split: prod.splits)

lemma length_failsafe: "length (failsafe q) \<le> length q"
  by (induction q) auto

lemma emit_fields [simp]:
  "outQueue (emit e s) = outQueue s" "inflight (emit e s) = inflight s"
  "executingQueue (emit e s) = executingQueue s" "storage (emit e s) = storage s"
  "useLocalStorage (emit e s) = useLocalStorage s"
  "effects (emit e s) = effects s @ [e]"
  by (simp_all add: emit_def)

lemma persist_fields [simp]:
  "outQueue (snd (persist cfg env s)) = outQueue s"
  "inflight (snd (persist cfg env s)) = inflight s"
  "executingQueue (snd (persist cfg env s)) = executingQueue s"
  "effects (snd (persist cfg env s)) = effects s"
  by (simp_all add: persist_def attemptWriteLocalStorage_def)

lemma removeEventsFromQueue_fields [simp]:
  "outQueue (removeEventsFromQueue cfg env n s) = drop n (outQueue s)"
  "inflight (removeEventsFromQueue cfg env n s) = inflight s"
  "executingQueue (removeEventsFromQueue cfg env n s) = executingQueue s"
  "effects (removeEventsFromQueue cfg env n s) = effects s"
  by (simp_all add: removeEventsFromQueue_def Let_def)

lemma executeQueue_post_Inr:
  assumes "executeQueue_post cfg env sync url s = Inr s'"
  shows "length (outQueue s') < length (outQueue s)"
proof -
  from assms obtain n stamped where
    n: "0 < n" "outQueue s \<noteq> []" and
    st: "attachStmToEvent (now env) (take n (outQueue s)) = (stamped, False)" and
    q: "outQueue s' = drop n (stamped @ drop n (outQueue s))"
    by (auto simp: executeQueue_post_def Let_def split: sum.splits if_splits prod.splits)
  from length_attachStmToEvent[of "now env" "take n (outQueue s)"] st
  have "length stamped = min (length (outQueue s)) n" by simp
  with n q show ?thesis by (cases "outQueue s") auto
qed

lemma executeQueue_body_Inr:
  assumes "executeQueue_body cfg env sync s = Inr s'"
  shows "length (outQueue s') < length (outQueue s)"
proof -
  let ?s = "s\<lparr>outQueue := failsafe (outQueue s)\<rparr>"
  from assms obtain url where
    "executeQueue_post cfg env sync url (?s\<lparr>executingQueue := True\<rparr>) = Inr s'"
    by (auto simp: executeQueue_body_def Let_def
        split: if_splits option.splits sum.splits bool.splits)
  from executeQueue_post_Inr[OF this]
  have "length (outQueue s') < length (failsafe (outQueue s))" by simp
  with length_failsafe[of "outQueue s"] show ?thesis by linarith
qed

function executeQueue :: "config \<Rightarrow> environment \<Rightarrow> bool \<Rightarrow> state \<Rightarrow> result" where
  "executeQueue cfg env sync s =
     (case executeQueue_body cfg env sync s of
        Inl r \<Rightarrow> r
      | Inr s' \<Rightarrow> executeQueue cfg env False s')"
  by pat_completeness auto
termination
  by (relation "measure (\<lambda>(cfg, env, sync, s). length (outQueue s))")
     (auto dest: executeQueue_body_Inr)

declare executeQueue.simps [simp del]

subsection \<open>Completion callbacks\<close>

text \<open>
  The \<^verbatim>\<open>readyState === 4\<close> callback that \<^verbatim>\<open>setXhrCallbacks\<close> installs. Its failure branch is
  given apart, with what the caller's \<^verbatim>\<open>onRequestFailure\<close> does to the manager when it is
  called: nothing, or calls of the interface.
\<close>

type_synonym caller = "RequestFailure \<Rightarrow> state \<Rightarrow> state"

definition xhr_onreadystatechange_failure ::
  "config \<Rightarrow> environment \<Rightarrow> caller \<Rightarrow> nat \<Rightarrow> batch \<Rightarrow> int \<Rightarrow> jsstring \<Rightarrow> state \<Rightarrow> state" where
  "xhr_onreadystatechange_failure cfg env onFailure numberToSend b xhr_status xhr_statusText s =
     (let will = shouldRetryForStatusCode cfg xhr_status;
          s1 = (if \<not> will
                then removeEventsFromQueue cfg env numberToSend (emit (LogError xhr_status) s)
                else s);
          failure = \<lparr>status = xhr_status, message = xhr_statusText, events = b, willRetry = will\<rparr>
      in (onFailure failure (emit (OnRequestFailure failure) s1))\<lparr>executingQueue := False\<rparr>)"

definition xhr_onreadystatechange ::
  "config \<Rightarrow> environment \<Rightarrow> nat \<Rightarrow> batch \<Rightarrow> int \<Rightarrow> jsstring \<Rightarrow> state \<Rightarrow> result" where
  "xhr_onreadystatechange cfg env numberToSend b xhr_status xhr_statusText s =
     (let s0 = s\<lparr>inflight := remove1 (Xhr numberToSend b) (inflight s)\<rparr>
      in if isSuccessfulRequest xhr_status then
           executeQueue cfg env False
             (emit (OnRequestSuccess b) (removeEventsFromQueue cfg env numberToSend s0))
         else
           Returned (xhr_onreadystatechange_failure cfg env (\<lambda>failure s'. s')
                       numberToSend b xhr_status xhr_statusText s0))"

text \<open>
  The timer that \<^verbatim>\<open>setXhrCallbacks\<close> installs. It fires only while the request is on its
  way (the \<^verbatim>\<open>readyState === 4\<close> callback clears it), and it first calls \<^verbatim>\<open>xhr.abort()\<close>.
  On a request that was sent and is not done, \<^verbatim>\<open>abort()\<close> sets \<^verbatim>\<open>readyState\<close> to 4 and runs
  the \<^verbatim>\<open>readystatechange\<close> callback before it returns, with status 0 and an empty status
  text (the XMLHttpRequest standard): the failure branch above runs first, inside the
  timer. \<open>xhr_timer_body\<close> is the timer after \<^verbatim>\<open>abort()\<close> has returned.
\<close>

definition xhr_timer_body ::
  "config \<Rightarrow> environment \<Rightarrow> caller \<Rightarrow> nat \<Rightarrow> batch \<Rightarrow> state \<Rightarrow> state" where
  "xhr_timer_body cfg env onFailure numberToSend b s =
     (let s1 = (if \<not> retryFailedRequests cfg
                then removeEventsFromQueue cfg env numberToSend s else s);
          failure = \<lparr>status = 0, message = js ''timeout'', events = b,
                     willRetry = retryFailedRequests cfg\<rparr>
      in (onFailure failure (emit (OnRequestFailure failure) s1))\<lparr>executingQueue := False\<rparr>)"

definition xhr_timeout_calling ::
  "config \<Rightarrow> environment \<Rightarrow> caller \<Rightarrow> nat \<Rightarrow> batch \<Rightarrow> state \<Rightarrow> state" where
  "xhr_timeout_calling cfg env onFailure numberToSend b s =
     (let s0 = emit XhrAbort (s\<lparr>inflight := remove1 (Xhr numberToSend b) (inflight s)\<rparr>);
          aborted = xhr_onreadystatechange_failure cfg env onFailure numberToSend b 0 [] s0
      in xhr_timer_body cfg env onFailure numberToSend b aborted)"

text \<open>The timer with a caller that leaves the manager alone.\<close>

definition xhr_timeout :: "config \<Rightarrow> environment \<Rightarrow> nat \<Rightarrow> batch \<Rightarrow> state \<Rightarrow> state" where
  "xhr_timeout cfg env numberToSend b s =
     xhr_timeout_calling cfg env (\<lambda>failure s'. s') numberToSend b s"

definition idService_onreadystatechange :: "config \<Rightarrow> environment \<Rightarrow> state \<Rightarrow> result" where
  "idService_onreadystatechange cfg env s =
     executeQueue cfg env False (s\<lparr>inflight := remove1 IdService (inflight s)\<rparr>)"

text \<open>
  The three callbacks of the pixel image, for an image whose \<^verbatim>\<open>loading\<close> is still true
  (once it is false they do nothing).
\<close>

definition image_onload :: "config \<Rightarrow> environment \<Rightarrow> bool \<Rightarrow> state \<Rightarrow> result" where
  "image_onload cfg env timer s =
     (let s0 = s\<lparr>inflight := remove1 (Image timer) (inflight s)\<rparr>;
          s1 = s0\<lparr>outQueue := drop 1 (outQueue s0)\<rparr>;
          s2 = (if useLocalStorage s1 then snd (persist cfg env s1) else s1)
      in executeQueue cfg env False s2)"

definition image_onerror :: "bool \<Rightarrow> state \<Rightarrow> state" where
  "image_onerror timer s =
     s\<lparr>inflight := remove1 (Image timer) (inflight s), executingQueue := False\<rparr>"

definition image_timeout :: "config \<Rightarrow> environment \<Rightarrow> state \<Rightarrow> result" where
  "image_timeout cfg env s =
     (if executingQueue s then
        executeQueue cfg env False (s\<lparr>inflight := remove1 (Image True) (inflight s)\<rparr>)
      else Returned (s\<lparr>inflight := remove1 (Image True) (inflight s) @ [Image False]\<rparr>))"

subsection \<open>The interface of the manager\<close>

definition enqueue_tail :: "config \<Rightarrow> environment \<Rightarrow> state \<Rightarrow> result" where
  "enqueue_tail cfg env s =
     (let (savedToLocalStorage, s1) =
            (if useLocalStorage s then persist cfg env s else (False, s))
      in if \<not> executingQueue s1 \<and>
            (\<not> savedToLocalStorage \<or> int (length (outQueue s1)) \<ge> bufferSize s1)
         then executeQueue cfg env False s1
         else Returned s1)"

definition enqueueRequest ::
  "config \<Rightarrow> environment \<Rightarrow> (jsstring \<times> jsvalue) list \<Rightarrow> jsstring \<Rightarrow> state \<Rightarrow> result" where
  "enqueueRequest cfg env request url s0 =
     (let s = s0\<lparr>configCollectorUrl := Some (url @ path cfg)\<rparr>
      in if usePost cfg then
           (let body = getBody env request
            in if bytes body \<ge> maxPostBytes cfg then
                 Returned (sendPostRequestWithoutQueueing env body (url @ path cfg)
                            (emit (Warn (bytes body) (maxPostBytes cfg)) s))
               else enqueue_tail cfg env (s\<lparr>outQueue := outQueue s @ [PostRecord body]\<rparr>))
         else
           (let querystring = getQuerystring env request;
                pushed = s\<lparr>outQueue := outQueue s @ [GetRecord querystring]\<rparr>
            in if maxGetBytes cfg > 0 then
                 (let requestUrl = createGetUrl_string cfg (now env) (url @ path cfg) querystring;
                      nbytes = int (getUTF8Length requestUrl)
                  in if nbytes \<ge> maxGetBytes cfg then
                       (let s1 = emit (Warn nbytes (maxGetBytes cfg)) s
                        in if useXhr cfg
                           then Returned (sendPostRequestWithoutQueueing env (getBody env request)
                                           (url @ postPath cfg) s1)
                           else Returned s1)
                     else enqueue_tail cfg env pushed)
               else enqueue_tail cfg env pushed))"

text \<open>The \<^verbatim>\<open>executeQueue\<close> of the returned object, and the hook put into \<^verbatim>\<open>bufferFlushers\<close>.\<close>

definition public_executeQueue :: "config \<Rightarrow> environment \<Rightarrow> state \<Rightarrow> result" where
  "public_executeQueue cfg env s =
     (if \<not> executingQueue s then executeQueue cfg env False s else Returned s)"

definition bufferFlusher :: "config \<Rightarrow> environment \<Rightarrow> bool \<Rightarrow> state \<Rightarrow> result" where
  "bufferFlusher cfg env sync s =
     (if \<not> executingQueue s then executeQueue cfg env sync s else Returned s)"

definition setUseLocalStorage :: "bool \<Rightarrow> state \<Rightarrow> state" where
  "setUseLocalStorage localStorage s = s\<lparr>useLocalStorage := localStorage\<rparr>"

definition setAnonymousTracking :: "bool \<Rightarrow> state \<Rightarrow> state" where
  "setAnonymousTracking anonymous s = s\<lparr>anonymousTracking := anonymous\<rparr>"

definition setCollectorUrl :: "config \<Rightarrow> jsstring \<Rightarrow> state \<Rightarrow> state" where
  "setCollectorUrl cfg url s = s\<lparr>configCollectorUrl := Some (url @ path cfg)\<rparr>"

definition setBufferSize :: "int \<Rightarrow> state \<Rightarrow> state" where
  "setBufferSize newBufferSize s = s\<lparr>bufferSize := newBufferSize\<rparr>"

subsection \<open>Construction\<close>

text \<open>
  The arguments of \<^verbatim>\<open>OutQueueManager\<close> that the modelled behaviour depends on (headers,
  credentials and the length of the timeout are left out), and what the constructor asks
  the browser: \<^verbatim>\<open>toLowerCase\<close>, the capability probes, the answer of
  \<^verbatim>\<open>hasWebKitBeaconBug\<close> for the user agent, \<^verbatim>\<open>localStorageAccessible\<close> of \<^verbatim>\<open>detectors\<close>,
  and \<^verbatim>\<open>getItem\<close> and \<^verbatim>\<open>JSON.parse\<close>, which can throw.
\<close>

datatype eventMethod = MethodString jsstring | MethodBoolean bool

datatype getItem_result = GetItemThrows | GetItemNull | Item jsstring

datatype parse_result = ParseThrows | ParsedArray "queued list" | ParsedOther

record arguments =
  arg_id :: jsstring
  arg_useLocalStorage :: bool
  arg_eventMethod :: eventMethod
  arg_postPath :: jsstring
  arg_bufferSize :: int
  arg_maxPostBytes :: int
  arg_maxGetBytes :: int
  arg_useStm :: bool
  arg_maxLocalStorageQueueSize :: int
  arg_anonymousTracking :: bool
  arg_retryStatusCodes :: "int list"
  arg_dontRetryStatusCodes :: "int list"
  arg_idService :: "jsstring option"
  arg_retryFailedRequests :: bool

record browser =
  toLowerCase :: "jsstring \<Rightarrow> jsstring"
  beaconSupported :: bool
  hasWebKitBeaconBug :: bool
  xhrSupported :: bool
  localStorageAccessible :: bool
  getItem :: "jsstring \<Rightarrow> getItem_result"
  JSON_parse :: "jsstring \<Rightarrow> parse_result"

record manager =
  manager_config :: config
  manager_state :: state
  flusherRegistered :: bool

text \<open>The body of the \<^verbatim>\<open>try\<close>: the value assigned to \<^verbatim>\<open>outQueue\<close>, or the exception.\<close>

definition load_try :: "browser \<Rightarrow> jsstring \<Rightarrow> error + parse_result" where
  "load_try br name =
     (case getItem br name of
        GetItemThrows \<Rightarrow> Inl SecurityError
      | GetItemNull \<Rightarrow> Inr (ParsedArray [])
      | Item localStorageQueue \<Rightarrow>
          if localStorageQueue \<noteq> [] then
            (case JSON_parse br localStorageQueue of
               ParseThrows \<Rightarrow> Inl SyntaxError
             | v \<Rightarrow> Inr v)
          else Inr (ParsedArray []))"

text \<open>
  The load: the empty \<^verbatim>\<open>catch\<close> leaves \<^verbatim>\<open>outQueue\<close> at its initial \<^verbatim>\<open>[]\<close>, and a value that
  is not an array is replaced by \<^verbatim>\<open>[]\<close>.
\<close>

definition load_queue :: "browser \<Rightarrow> bool \<Rightarrow> jsstring \<Rightarrow> queued list" where
  "load_queue br useLS name =
     (let loaded = (if useLS
                    then (case load_try br name of Inl e \<Rightarrow> ParsedArray [] | Inr v \<Rightarrow> v)
                    else ParsedArray [])
      in case loaded of ParsedArray q \<Rightarrow> q | other \<Rightarrow> [])"

definition queueName :: "jsstring \<Rightarrow> bool \<Rightarrow> jsstring" where
  "queueName ident post =
     js ''snowplowOutQueue_'' @ ident @ js ''_'' @ (if post then js ''post2'' else js ''get'')"

definition OutQueueManager :: "arguments \<Rightarrow> browser \<Rightarrow> error + manager" where
  "OutQueueManager args br =
     (let method = (case arg_eventMethod args of
                      MethodString m \<Rightarrow> MethodString (toLowerCase br m)
                    | MethodBoolean b \<Rightarrow> MethodBoolean b);
          isBeaconRequested = (method = MethodBoolean True \<or> method = MethodString (js ''beacon'')
                                \<or> method = MethodString (js ''true''));
          isBeaconAvailable = (isBeaconRequested \<and> beaconSupported br \<and> \<not> hasWebKitBeaconBug br);
          isGetRequested = (method = MethodString (js ''get''));
          xhr = xhrSupported br;
          post = (\<not> isGetRequested \<and> xhr \<and> (method = MethodString (js ''post'') \<or> isBeaconRequested));
          name = queueName (arg_id args) post;
          buffer = (if arg_useLocalStorage args \<and> localStorageAccessible br \<and> post
                       \<and> arg_bufferSize args \<noteq> 0
                    then arg_bufferSize args else 1)
      in Inr \<lparr>manager_config =
                \<lparr>usePost = post, useXhr = xhr,
                 useBeacon = (isBeaconAvailable \<and> isBeaconRequested),
                 postPath = arg_postPath args,
                 path = (if post then arg_postPath args else js ''/i''),
                 maxPostBytes = arg_maxPostBytes args,
                 maxGetBytes = arg_maxGetBytes args,
                 useStm = arg_useStm args,
                 maxLocalStorageQueueSize = arg_maxLocalStorageQueueSize args,
                 retryStatusCodes = arg_retryStatusCodes args,
                 dontRetryStatusCodes = arg_dontRetryStatusCodes args,
                 idService = arg_idService args,
                 retryFailedRequests = arg_retryFailedRequests args\<rparr>,
              manager_state =
                \<lparr>executingQueue = False,
                 configCollectorUrl = None,
                 outQueue = load_queue br (arg_useLocalStorage args) name,
                 idServiceCalled = False,
                 useLocalStorage = arg_useLocalStorage args,
                 anonymousTracking = arg_anonymousTracking args,
                 bufferSize = buffer,
                 storage = (case getItem br name of Item v \<Rightarrow> Some v | other \<Rightarrow> None),
                 effects = [],
                 inflight = []\<rparr>,
              flusherRegistered = (xhr \<and> buffer > 1)\<rparr>)"

subsection \<open>What is in flight for the drain\<close>

text \<open>
  A request, image or identity-service call in flight belongs to the drain; a request of
  \<^verbatim>\<open>sendPostRequestWithoutQueueing\<close> does not.
\<close>

fun drain_pending :: "pending \<Rightarrow> bool" where
  "drain_pending (Bypass b) = False"
| "drain_pending p = True"

definition drains :: "state \<Rightarrow> pending list" where
  "drains s = filter drain_pending (inflight s)"

subsection \<open>A sample configuration and browser for worked examples\<close>

definition example_config :: config where
  "example_config =
     \<lparr>usePost = True, useXhr = True, useBeacon = False,
      postPath = js ''/tp2'', path = js ''/tp2'',
      maxPostBytes = 10000, maxGetBytes = 0, useStm = True,
      maxLocalStorageQueueSize = 1000,
      retryStatusCodes = [], dontRetryStatusCodes = [],
      idService = None, retryFailedRequests = True\<rparr>"

definition example_environment :: environment where
  "example_environment =
     \<lparr>toString = (\<lambda>v. case v of VString str \<Rightarrow> str | VNumber n \<Rightarrow> js ''0''
                       | VBoolean b \<Rightarrow> (if b then js ''true'' else js ''false'')),
      encodeURIComponent = (\<lambda>str. str),
      JSON_stringify_evt = (\<lambda>kvs. concat (map (\<lambda>(k, v). k @ js '':'' @ v @ js '','') kvs)),
      JSON_stringify_queue = (\<lambda>q. replicate (length q) (of_char CHR ''#'')),
      now = js ''1700000000000'',
      setItemSucceeds = (\<lambda>v. True),
      sendBeacon = (\<lambda>url evs. BeaconFalse)\<rparr>"

definition example_arguments :: arguments where
  "example_arguments =
     \<lparr>arg_id = js ''sp'', arg_useLocalStorage = True,
      arg_eventMethod = MethodString (js ''post''), arg_postPath = js ''/tp2'',
      arg_bufferSize = 1, arg_maxPostBytes = 10000, arg_maxGetBytes = 0,
      arg_useStm = True, arg_maxLocalStorageQueueSize = 1000,
      arg_anonymousTracking = False, arg_retryStatusCodes = [],
      arg_dontRetryStatusCodes = [], arg_idService = None,
      arg_retryFailedRequests = True\<rparr>"

definition example_browser :: browser where
  "example_browser =
     \<lparr>toLowerCase = (\<lambda>str. str), beaconSupported = True, hasWebKitBeaconBug = False,
      xhrSupported = True, localStorageAccessible = True,
      getItem = (\<lambda>key. GetItemNull), JSON_parse = (\<lambda>str. ParseThrows)\<rparr>"

definition example_request :: "(jsstring \<times> jsvalue) list" where
  "example_request = [(js ''e'', VString (js ''pv''))]"

definition example_state :: state where
  "example_state =
     \<lparr>executingQueue = False, configCollectorUrl = None, outQueue = [],
      idServiceCalled = False, useLocalStorage = True, anonymousTracking = False,
      bufferSize = 1, storage = None, effects = [], inflight = []\<rparr>"

text \<open>The sample manager after one small record was enqueued: the drain has posted it.\<close>

definition example_draining :: state where
  "example_draining =
     result_state (enqueueRequest example_config example_environment example_request
       (js ''http://c'') example_state)"

text \<open>The batch of the first record, as it is posted.\<close>

definition example_batch :: batch where
  "example_batch = Events [[(js ''e'', js ''pv''), (js ''stm'', js ''1700000000000'')]]"



text \<open>A failure callback that calls \<^verbatim>\<open>executeQueue\<close> of the interface, to try again at once.\<close>

definition example_caller :: caller where
  "example_caller failure s =
     result_state (public_executeQueue example_config example_environment s)"

section \<open>Properties of batch selection\<close>

lemma prefix_bytes_Suc:
  "n < length ps \<Longrightarrow> prefix_bytes (Suc n) ps = prefix_bytes n ps + bytes (ps ! n)"
  by (simp add: prefix_bytes_def take_Suc_conv_app_nth)

text \<open>
  The loop invariant on a queue of post records: entered at index \<open>n\<close> with the byte
  count of the first \<open>n\<close> records, the loop stops at the first index whose record brings
  the count to the cap, or at the end.
\<close>

lemma chooseHowManyToSend_loop_posts:
  assumes "n \<le> length ps"
  shows "\<exists>m. chooseHowManyToSend_loop cap (map PostRecord ps) n (Num (prefix_bytes n ps)) = Inr m
           \<and> n \<le> m \<and> m \<le> length ps
           \<and> (\<forall>k. n < k \<and> k \<le> m \<longrightarrow> prefix_bytes k ps < cap)
           \<and> (m < length ps \<longrightarrow> cap \<le> prefix_bytes (Suc m) ps)"
  using assms
proof (induction "length ps - n" arbitrary: n)
  case 0
  then have "n = length ps" by simp
  then show ?case by (subst chooseHowManyToSend_loop.simps) simp
next
  case (Suc d)
  then have lt: "n < length ps" by simp
  show ?case
  proof (cases "cap \<le> prefix_bytes (Suc n) ps")
    case True
    with lt show ?thesis
      by (subst chooseHowManyToSend_loop.simps) (simp add: prefix_bytes_Suc)
  next
    case False
    from Suc(2) lt have d: "d = length ps - Suc n" by simp
    from lt have "Suc n \<le> length ps" by simp
    from Suc(1)[OF d this] obtain m where
      m: "chooseHowManyToSend_loop cap (map PostRecord ps) (Suc n) (Num (prefix_bytes (Suc n) ps)) = Inr m"
         "Suc n \<le> m" "m \<le> length ps"
         "\<forall>k. Suc n < k \<and> k \<le> m \<longrightarrow> prefix_bytes k ps < cap"
         "m < length ps \<longrightarrow> cap \<le> prefix_bytes (Suc m) ps"
      by blast
    have step: "chooseHowManyToSend_loop cap (map PostRecord ps) n (Num (prefix_bytes n ps)) = Inr m"
      using lt False m(1)
      by (subst chooseHowManyToSend_loop.simps) (simp add: prefix_bytes_Suc)
    have "\<forall>k. n < k \<and> k \<le> m \<longrightarrow> prefix_bytes k ps < cap"
    proof (intro allI impI)
      fix k assume k: "n < k \<and> k \<le> m"
      show "prefix_bytes k ps < cap"
      proof (cases "k = Suc n")
        case True with False show ?thesis by simp
      next
        case False with k m(4) show ?thesis by auto
      qed
    qed
    with step m show ?thesis by auto
  qed
qed

text \<open>
  C1, as the code has it. On a queue of post records \<^verbatim>\<open>chooseHowManyToSend\<close> returns the
  length \<open>n\<close> of the longest prefix whose cumulative byte size stays below the cap: every
  non-empty initial segment of up to \<open>n\<close> records is below the cap, and the record after
  it, when there is one, brings the size to the cap or over. At least one record is
  selected exactly when the queue is non-empty and its first record alone is below the
  cap. So a selected batch is always below the cap; a first record at or over the cap is
  not selected.
\<close>

theorem chooseHowManyToSend_longest_prefix:
  "\<exists>n. chooseHowManyToSend cap (map PostRecord ps) = Inr n
      \<and> n \<le> length ps
      \<and> (\<forall>k. 0 < k \<and> k \<le> n \<longrightarrow> prefix_bytes k ps < cap)
      \<and> (n < length ps \<longrightarrow> cap \<le> prefix_bytes (Suc n) ps)
      \<and> (0 < n \<longleftrightarrow> ps \<noteq> [] \<and> bytes (hd ps) < cap)"
proof -
  have z: "prefix_bytes 0 ps = 0" by (simp add: prefix_bytes_def)
  from chooseHowManyToSend_loop_posts[of 0 ps cap] obtain n where
    n: "chooseHowManyToSend cap (map PostRecord ps) = Inr n" "n \<le> length ps"
       "\<forall>k. 0 < k \<and> k \<le> n \<longrightarrow> prefix_bytes k ps < cap"
       "n < length ps \<longrightarrow> cap \<le> prefix_bytes (Suc n) ps"
    by (auto simp: z chooseHowManyToSend_def)
  have one: "ps \<noteq> [] \<Longrightarrow> prefix_bytes (Suc 0) ps = bytes (hd ps)"
    by (cases ps) (simp_all add: prefix_bytes_def)
  have "0 < n \<longleftrightarrow> ps \<noteq> [] \<and> bytes (hd ps) < cap"
  proof
    assume "0 < n"
    with n(2) have ne: "ps \<noteq> []" by auto
    from \<open>0 < n\<close> n(3) have "prefix_bytes (Suc 0) ps < cap" by auto
    with ne one show "ps \<noteq> [] \<and> bytes (hd ps) < cap" by simp
  next
    assume a: "ps \<noteq> [] \<and> bytes (hd ps) < cap"
    show "0 < n"
    proof (rule ccontr)
      assume "\<not> 0 < n"
      then have "n = 0" by simp
      with n(4) a have "cap \<le> prefix_bytes (Suc 0) ps" by auto
      with a one show False by simp
    qed
  qed
  with n show ?thesis by blast
qed

text \<open>
  With a cap of 10 and records of 4, 5 and 3 bytes the first two are selected: 9 bytes
  are below the cap and 12 are not.
\<close>

theorem chooseHowManyToSend_longest_prefix_witness:
  "chooseHowManyToSend 10
     (map PostRecord [\<lparr>evt = [], bytes = 4\<rparr>, \<lparr>evt = [], bytes = 5\<rparr>, \<lparr>evt = [], bytes = 3\<rparr>]) = Inr 2
   \<and> prefix_bytes 2 [\<lparr>evt = [], bytes = 4\<rparr>, \<lparr>evt = [], bytes = 5\<rparr>, \<lparr>evt = [], bytes = 3\<rparr>] < 10
   \<and> 10 \<le> prefix_bytes 3 [\<lparr>evt = [], bytes = 4\<rparr>, \<lparr>evt = [], bytes = 5\<rparr>, \<lparr>evt = [], bytes = 3\<rparr>]"
proof -
  let ?ps = "[\<lparr>evt = [], bytes = 4\<rparr>, \<lparr>evt = [], bytes = 5\<rparr>, \<lparr>evt = [], bytes = (3::int)\<rparr>]"
  have run: "chooseHowManyToSend 10 (map PostRecord ?ps) = Inr 2"
    by (simp add: chooseHowManyToSend_def chooseHowManyToSend_loop.simps)
  from chooseHowManyToSend_longest_prefix[of 10 ?ps] run
  have "(\<forall>k. 0 < k \<and> k \<le> 2 \<longrightarrow> prefix_bytes k ?ps < 10)
        \<and> ((2::nat) < length ?ps \<longrightarrow> 10 \<le> prefix_bytes (Suc 2) ?ps)"
    by auto
  then have "prefix_bytes 2 ?ps < 10" "10 \<le> prefix_bytes 3 ?ps"
    by (auto simp: numeral_3_eq_3)
  with run show ?thesis by simp
qed

text \<open>
  C1 as stated fails: a queue of one record of 18000 bytes under a cap of 10000 is not
  empty, and no record is selected. The drain then sends nothing: it returns with
  \<^verbatim>\<open>executingQueue\<close> true, the record still queued and nothing in flight.
\<close>

theorem chooseHowManyToSend_oversized_head:
  "chooseHowManyToSend 10000 [PostRecord \<lparr>evt = [], bytes = 18000\<rparr>] = Inr 0
   \<and> executeQueue example_config example_environment False
       (example_state\<lparr>outQueue := [PostRecord \<lparr>evt = [], bytes = 18000\<rparr>],
          configCollectorUrl := Some (js ''http://c/tp2'')\<rparr>)
     = Returned
         (example_state\<lparr>outQueue := [PostRecord \<lparr>evt = [], bytes = 18000\<rparr>],
            configCollectorUrl := Some (js ''http://c/tp2''), executingQueue := True\<rparr>)"
  by (simp add: chooseHowManyToSend_def chooseHowManyToSend_loop.simps executeQueue.simps
      executeQueue_body_def executeQueue_post_def example_config_def example_state_def
      truthy_def isString_def)

section \<open>Retry classification\<close>

text \<open>
  C2. \<^verbatim>\<open>shouldRetryForStatusCode\<close> answers false for a 2xx status; false when
  \<^verbatim>\<open>retryFailedRequests\<close> is off; otherwise true for a status on the retry list, also when
  it is on the don't-retry list as well; otherwise true exactly when the status is not on
  the don't-retry list. In particular 500 is retried with both lists empty and retries
  on, 404 on the don't-retry list (and not on the retry list) is not, and 429 on both
  lists is.
\<close>

theorem shouldRetryForStatusCode_policy:
  "(200 \<le> st \<and> st < 300 \<longrightarrow> \<not> shouldRetryForStatusCode cfg st)
   \<and> (\<not> retryFailedRequests cfg \<longrightarrow> \<not> shouldRetryForStatusCode cfg st)
   \<and> (\<not> (200 \<le> st \<and> st < 300) \<and> retryFailedRequests cfg \<and> st \<in> set (retryStatusCodes cfg)
        \<longrightarrow> shouldRetryForStatusCode cfg st)
   \<and> (\<not> (200 \<le> st \<and> st < 300) \<and> retryFailedRequests cfg \<and> st \<notin> set (retryStatusCodes cfg)
        \<longrightarrow> (shouldRetryForStatusCode cfg st \<longleftrightarrow> st \<notin> set (dontRetryStatusCodes cfg)))
   \<and> (retryFailedRequests cfg \<and> retryStatusCodes cfg = [] \<and> dontRetryStatusCodes cfg = []
        \<longrightarrow> shouldRetryForStatusCode cfg 500)
   \<and> (404 \<in> set (dontRetryStatusCodes cfg) \<and> 404 \<notin> set (retryStatusCodes cfg)
        \<longrightarrow> \<not> shouldRetryForStatusCode cfg 404)
   \<and> (retryFailedRequests cfg \<and> 429 \<in> set (retryStatusCodes cfg)
        \<and> 429 \<in> set (dontRetryStatusCodes cfg)
        \<longrightarrow> shouldRetryForStatusCode cfg 429)"
  by (simp add: shouldRetryForStatusCode_def isSuccessfulRequest_def)

text \<open>
  With retries on, 429 on both lists and 404 on the don't-retry list only: 429 is
  retried, 404 and 204 are not; 500 is retried under the sample configuration.
\<close>

theorem shouldRetryForStatusCode_policy_witness:
  "shouldRetryForStatusCode
     (example_config\<lparr>retryStatusCodes := [429], dontRetryStatusCodes := [404, 429]\<rparr>) 429
   \<and> \<not> shouldRetryForStatusCode
     (example_config\<lparr>retryStatusCodes := [429], dontRetryStatusCodes := [404, 429]\<rparr>) 404
   \<and> \<not> shouldRetryForStatusCode
     (example_config\<lparr>retryStatusCodes := [429], dontRetryStatusCodes := [404, 429]\<rparr>) 204
   \<and> shouldRetryForStatusCode example_config 500"
  using shouldRetryForStatusCode_policy
          [of 429 "example_config\<lparr>retryStatusCodes := [429], dontRetryStatusCodes := [404, 429]\<rparr>"]
        shouldRetryForStatusCode_policy
          [of 204 "example_config\<lparr>retryStatusCodes := [429], dontRetryStatusCodes := [404, 429]\<rparr>"]
        shouldRetryForStatusCode_policy [of 500 example_config]
  by (simp add: example_config_def)

section \<open>Oversized events\<close>

text \<open>
  C3, as the code has it. When the record's byte size reaches the maximum of the active
  transport (the POST cap in POST mode; the GET cap in GET mode, checked only when that
  cap is positive), \<^verbatim>\<open>enqueueRequest\<close> returns having changed only the collector URL, the
  effects and the requests in flight: the queue and the stored queue are as before. The
  warning is emitted; the record is posted at once in POST mode, and in GET mode when
  XHR is available; in GET mode without XHR nothing is sent. In GET mode with a cap of
  zero or less there is no check and the record is appended to the queue.
\<close>

theorem enqueueRequest_oversized:
  "(usePost cfg \<and> maxPostBytes cfg \<le> bytes (getBody env request) \<longrightarrow>
      enqueueRequest cfg env request url s =
        (let ev = set_prop (js ''stm'') (now env) (evt (getBody env request))
         in Returned (s\<lparr>configCollectorUrl := Some (url @ path cfg),
              effects := effects s @
                [Warn (bytes (getBody env request)) (maxPostBytes cfg),
                 XhrSendPost (url @ path cfg) False [ev]],
              inflight := inflight s @ [Bypass (Events [ev])]\<rparr>)))
   \<and> (\<not> usePost cfg \<and> 0 < maxGetBytes cfg
        \<and> maxGetBytes cfg \<le> int (getUTF8Length
              (createGetUrl_string cfg (now env) (url @ path cfg) (getQuerystring env request))) \<longrightarrow>
      enqueueRequest cfg env request url s =
        (let ev = set_prop (js ''stm'') (now env) (evt (getBody env request));
             nbytes = int (getUTF8Length
               (createGetUrl_string cfg (now env) (url @ path cfg) (getQuerystring env request)))
         in Returned (s\<lparr>configCollectorUrl := Some (url @ path cfg),
              effects := effects s @ Warn nbytes (maxGetBytes cfg) #
                (if useXhr cfg then [XhrSendPost (url @ postPath cfg) False [ev]] else []),
              inflight := inflight s @ (if useXhr cfg then [Bypass (Events [ev])] else [])\<rparr>)))
   \<and> (\<not> usePost cfg \<and> maxGetBytes cfg \<le> 0 \<longrightarrow>
      enqueueRequest cfg env request url s =
        enqueue_tail cfg env
          (s\<lparr>configCollectorUrl := Some (url @ path cfg),
             outQueue := outQueue s @ [GetRecord (getQuerystring env request)]\<rparr>))"
  by (simp add: enqueueRequest_def sendPostRequestWithoutQueueing_def emit_def Let_def)

text \<open>
  A record of 5 bytes under a POST cap of 3: the warning and one standalone POST, the
  queue and the store untouched.
\<close>

theorem enqueueRequest_oversized_witness:
  "enqueueRequest (example_config\<lparr>maxPostBytes := 3\<rparr>) example_environment example_request
     (js ''http://c'') example_state =
   Returned (example_state\<lparr>configCollectorUrl := Some (js ''http://c/tp2''),
     effects := [Warn 5 3,
       XhrSendPost (js ''http://c/tp2'') False
         [[(js ''e'', js ''pv''), (js ''stm'', js ''1700000000000'')]]],
     inflight := [Bypass (Events [[(js ''e'', js ''pv''), (js ''stm'', js ''1700000000000'')]])]\<rparr>)"
proof -
  have body: "getBody example_environment example_request = \<lparr>evt = [(js ''e'', js ''pv'')], bytes = 5\<rparr>"
    by (simp add: getBody_def example_environment_def example_request_def js_def)
  have hyp: "usePost (example_config\<lparr>maxPostBytes := 3\<rparr>)
      \<and> maxPostBytes (example_config\<lparr>maxPostBytes := 3\<rparr>)
          \<le> bytes (getBody example_environment example_request)"
    by (simp add: body example_config_def)
  have clock: "now example_environment = js ''1700000000000''"
    by (simp add: example_environment_def)
  from enqueueRequest_oversized
         [of "example_config\<lparr>maxPostBytes := 3\<rparr>" example_environment example_request
             "js ''http://c''" example_state] hyp
  show ?thesis
    by (simp add: body clock example_config_def example_state_def js_def Let_def)
qed

text \<open>
  C3 as stated fails: in GET mode without XHR, a record whose URL takes 33 bytes under
  a GET cap of 10 is warned about and dropped; no request is made and nothing is in
  flight.
\<close>

theorem enqueueRequest_oversized_get_without_xhr:
  "enqueueRequest
     (example_config\<lparr>usePost := False, useXhr := False, path := js ''/i'', maxGetBytes := 10\<rparr>)
     example_environment example_request (js ''http://c'') example_state =
   Returned (example_state\<lparr>configCollectorUrl := Some (js ''http://c/i''),
     effects := [Warn 33 10]\<rparr>)"
  by (simp add: enqueueRequest_def example_config_def example_environment_def
      example_request_def example_state_def getQuerystring_def lowPriorityKeys_def
      createGetUrl_string_def emit_def js_def Let_def)

section \<open>Timeouts\<close>

text \<open>
  What the timer of a queue request does, for a caller whose callbacks leave the manager
  alone. The failure callback is called twice: by the \<^verbatim>\<open>readystatechange\<close> callback that
  \<^verbatim>\<open>abort()\<close> runs, with the classifier's answer for status 0, and by the timer itself,
  with the message \<^verbatim>\<open>timeout\<close> and the flag \<^verbatim>\<open>retryFailedRequests\<close>.
\<close>

lemma xhr_timeout_effects:
  "effects (xhr_timeout cfg env numberToSend b s)
     = effects s @ [XhrAbort]
       @ (if shouldRetryForStatusCode cfg 0 then [] else [LogError 0])
       @ [OnRequestFailure \<lparr>status = 0, message = [], events = b,
                             willRetry = shouldRetryForStatusCode cfg 0\<rparr>,
          OnRequestFailure \<lparr>status = 0, message = js ''timeout'', events = b,
                             willRetry = retryFailedRequests cfg\<rparr>]"
  by (simp add: xhr_timeout_def xhr_timeout_calling_def xhr_timer_body_def
      xhr_onreadystatechange_failure_def Let_def)

text \<open>
  The batch is removed by each of the two that does not retry: not at all when the
  classifier retries status 0, once when retries are on and the classifier does not retry
  status 0, and twice when retries are off.
\<close>

lemma xhr_timeout_outQueue:
  "outQueue (xhr_timeout cfg env numberToSend b s)
     = (if shouldRetryForStatusCode cfg 0 then outQueue s
        else if retryFailedRequests cfg then drop numberToSend (outQueue s)
        else drop numberToSend (drop numberToSend (outQueue s)))"
  by (simp add: xhr_timeout_def xhr_timeout_calling_def xhr_timer_body_def
      xhr_onreadystatechange_failure_def shouldRetryForStatusCode_def Let_def)

lemma xhr_timeout_idle:
  "\<not> executingQueue (xhr_timeout cfg env numberToSend b s)"
  by (simp add: xhr_timeout_def xhr_timeout_calling_def xhr_timer_body_def Let_def)

text \<open>
  C4 fails on the code. With retries enabled and status 0 on the list of codes not to
  retry, the classifier's decision for status 0 is not to retry. When the timer of the
  posted batch fires, \<^verbatim>\<open>abort()\<close> runs the \<^verbatim>\<open>readystatechange\<close> callback, which logs the
  failure, removes the batch from the queue and calls the failure callback with status 0,
  an empty message and \<^verbatim>\<open>willRetry\<close> false. The timer then calls the failure callback a
  second time, with status 0, the message \<^verbatim>\<open>timeout\<close> and \<^verbatim>\<open>willRetry\<close> true: the callback
  that carries the message \<^verbatim>\<open>timeout\<close> does not carry the classifier's decision, and it
  announces a retry of a batch that is no longer queued.
\<close>

theorem xhr_timeout_announces_retry_of_removed_batch:
  "\<not> shouldRetryForStatusCode (example_config\<lparr>dontRetryStatusCodes := [0]\<rparr>) 0
   \<and> executingQueue example_draining
   \<and> inflight example_draining = [Xhr 1 example_batch]
   \<and> outQueue example_draining
       = [PostRecord \<lparr>evt = [(js ''e'', js ''pv''), (js ''stm'', js ''1700000000000'')],
                       bytes = 5\<rparr>]
   \<and> effects example_draining
       = [XhrSendPost (js ''http://c/tp2'') False
            [[(js ''e'', js ''pv''), (js ''stm'', js ''1700000000000'')]]]
   \<and> outQueue (xhr_timeout (example_config\<lparr>dontRetryStatusCodes := [0]\<rparr>)
                 example_environment 1 example_batch example_draining) = []
   \<and> inflight (xhr_timeout (example_config\<lparr>dontRetryStatusCodes := [0]\<rparr>)
                 example_environment 1 example_batch example_draining) = []
   \<and> effects (xhr_timeout (example_config\<lparr>dontRetryStatusCodes := [0]\<rparr>)
                 example_environment 1 example_batch example_draining)
       = [XhrSendPost (js ''http://c/tp2'') False
            [[(js ''e'', js ''pv''), (js ''stm'', js ''1700000000000'')]],
          XhrAbort,
          LogError 0,
          OnRequestFailure \<lparr>status = 0, message = [], events = example_batch,
                             willRetry = False\<rparr>,
          OnRequestFailure \<lparr>status = 0, message = js ''timeout'', events = example_batch,
                             willRetry = True\<rparr>]"
  by code_simp

section \<open>The drain\<close>

text \<open>
  C5. When the queue is not empty once the failsafe loop has run and no collector URL
  has been set, \<^verbatim>\<open>executeQueue\<close> throws \<^verbatim>\<open>No collector configured\<close>: nothing is sent and
  nothing changes but the entries the failsafe discarded. When the queue is empty
  after the failsafe loop it returns with \<^verbatim>\<open>executingQueue\<close> set to false.
\<close>

theorem executeQueue_configuration_error:
  "(failsafe (outQueue s) \<noteq> [] \<and> \<not> isString (configCollectorUrl s) \<longrightarrow>
      executeQueue cfg env sync s
        = Thrown NoCollectorConfigured (s\<lparr>outQueue := failsafe (outQueue s)\<rparr>))
   \<and> (failsafe (outQueue s) = [] \<longrightarrow>
      executeQueue cfg env sync s = Returned (s\<lparr>outQueue := [], executingQueue := False\<rparr>))"
  by (simp add: executeQueue.simps executeQueue_body_def Let_def)

text \<open>
  A queue of a number and a post record, no URL: the number is discarded and the drain
  throws, the record still queued. A queue of a number only: the drain returns idle.
\<close>

theorem executeQueue_configuration_error_witness:
  "executeQueue example_config example_environment False
     (example_state\<lparr>outQueue := [PrimitiveEntry, PostRecord \<lparr>evt = [], bytes = 2\<rparr>]\<rparr>)
     = Thrown NoCollectorConfigured
         (example_state\<lparr>outQueue := [PostRecord \<lparr>evt = [], bytes = 2\<rparr>]\<rparr>)
   \<and> executeQueue example_config example_environment False
     (example_state\<lparr>outQueue := [PrimitiveEntry], executingQueue := True\<rparr>)
     = Returned (example_state\<lparr>outQueue := [], executingQueue := False\<rparr>)"
  using executeQueue_configuration_error
          [of "example_state\<lparr>outQueue := [PrimitiveEntry, PostRecord \<lparr>evt = [], bytes = 2\<rparr>]\<rparr>"
              example_config example_environment False]
        executeQueue_configuration_error
          [of "example_state\<lparr>outQueue := [PrimitiveEntry], executingQueue := True\<rparr>"
              example_config example_environment False]
  by (simp add: example_state_def isString_def)

text \<open>
  C6 fails on the code. The failsafe loop tests \<^verbatim>\<open>typeof\<close>, and \<^verbatim>\<open>typeof null\<close> is
  \<^verbatim>\<open>'object'\<close>: a \<^verbatim>\<open>null\<close> at the head of the queue is kept, and the drain then throws a
  TypeError in \<^verbatim>\<open>postable\<close>, with \<^verbatim>\<open>executingQueue\<close> left true.
\<close>

theorem executeQueue_null_head:
  "failsafe [NullEntry] = [NullEntry]
   \<and> executeQueue example_config example_environment False
       (example_state\<lparr>outQueue := [NullEntry], configCollectorUrl := Some (js ''http://c/tp2'')\<rparr>)
     = Thrown TypeError
         (example_state\<lparr>outQueue := [NullEntry], configCollectorUrl := Some (js ''http://c/tp2''),
            executingQueue := True\<rparr>)"
  by (simp add: executeQueue.simps executeQueue_body_def example_config_def example_state_def
      truthy_def isString_def)

section \<open>Order of delivery\<close>


section \<open>Single flight\<close>

text \<open>While \<^verbatim>\<open>executingQueue\<close> is true the two guarded entry points do nothing.\<close>

lemma guarded_entry_points_idle:
  assumes "executingQueue s"
  shows "public_executeQueue cfg env s = Returned s"
    and "bufferFlusher cfg env sync s = Returned s"
  using assms by (simp_all add: public_executeQueue_def bufferFlusher_def)

text \<open>
  C8 fails on the code. The caller's failure callback calls \<^verbatim>\<open>executeQueue\<close> of the
  interface. The timer of the posted batch fires. The \<^verbatim>\<open>readystatechange\<close> callback run by
  \<^verbatim>\<open>abort()\<close> calls the failure callback while \<^verbatim>\<open>executingQueue\<close> is still true, so that
  the callback's \<^verbatim>\<open>executeQueue\<close> does nothing, and then sets the flag to false. The timer
  calls the failure callback again: this time its \<^verbatim>\<open>executeQueue\<close> starts a drain, which
  posts the batch and sets the flag to true, and the timer sets the flag to false after
  it. A request of the drain is now in flight with
  \<^verbatim>\<open>executingQueue\<close> false, and the next call of \<^verbatim>\<open>executeQueue\<close> posts the batch a second
  time: two drains are active at once.
\<close>

theorem timeout_callback_starts_second_drain:
  "executingQueue example_draining
   \<and> drains example_draining = [Xhr 1 example_batch]
   \<and> \<not> executingQueue (xhr_timeout_calling example_config example_environment example_caller
                          1 example_batch example_draining)
   \<and> drains (xhr_timeout_calling example_config example_environment example_caller
               1 example_batch example_draining) = [Xhr 1 example_batch]
   \<and> effects (xhr_timeout_calling example_config example_environment example_caller
                1 example_batch example_draining)
       = [XhrSendPost (js ''http://c/tp2'') False
            [[(js ''e'', js ''pv''), (js ''stm'', js ''1700000000000'')]],
          XhrAbort,
          OnRequestFailure \<lparr>status = 0, message = [], events = example_batch,
                             willRetry = True\<rparr>,
          OnRequestFailure \<lparr>status = 0, message = js ''timeout'', events = example_batch,
                             willRetry = True\<rparr>,
          XhrSendPost (js ''http://c/tp2'') False
            [[(js ''e'', js ''pv''), (js ''stm'', js ''1700000000000'')]]]
   \<and> drains (result_state (public_executeQueue example_config example_environment
               (xhr_timeout_calling example_config example_environment example_caller
                  1 example_batch example_draining)))
       = [Xhr 1 example_batch, Xhr 1 example_batch]"
  by code_simp

section \<open>Construction\<close>

text \<open>
  C9. With \<^verbatim>\<open>useLocalStorage\<close> on, construction does not throw, and the queue starts as
  follows from the value stored under the queue's name: empty when \<^verbatim>\<open>JSON.parse\<close>
  throws on it, empty when it parses to something that is not an array, and the parsed
  array itself when it parses to one (the stored string being non-empty, as any text
  that parses is).
\<close>

theorem OutQueueManager_load:
  "\<exists>m. OutQueueManager args br = Inr m
     \<and> (\<forall>v. arg_useLocalStorage args
            \<and> getItem br (queueName (arg_id args) (usePost (manager_config m))) = Item v
          \<longrightarrow> (JSON_parse br v = ParseThrows \<longrightarrow> outQueue (manager_state m) = [])
            \<and> (JSON_parse br v = ParsedOther \<longrightarrow> outQueue (manager_state m) = [])
            \<and> (\<forall>q. JSON_parse br v = ParsedArray q \<and> v \<noteq> [] \<longrightarrow> outQueue (manager_state m) = q))"
  by (auto simp: OutQueueManager_def Let_def load_queue_def load_try_def)

text \<open>
  A store that holds \<^verbatim>\<open>{bad\<close>, on which \<^verbatim>\<open>JSON.parse\<close> throws: the manager is constructed
  with an empty queue.
\<close>

theorem OutQueueManager_load_witness:
  "OutQueueManager example_arguments
     (example_browser\<lparr>getItem := (\<lambda>key. Item (js ''{bad''))\<rparr>)
   = Inr \<lparr>manager_config = example_config,
          manager_state = example_state\<lparr>storage := Some (js ''{bad'')\<rparr>,
          flusherRegistered = False\<rparr>"
proof -
  let ?br = "example_browser\<lparr>getItem := (\<lambda>key. Item (js ''{bad''))\<rparr>"
  from OutQueueManager_load[of example_arguments ?br] obtain m where
    m: "OutQueueManager example_arguments ?br = Inr m" and
    q: "\<forall>v. arg_useLocalStorage example_arguments
            \<and> getItem ?br (queueName (arg_id example_arguments) (usePost (manager_config m))) = Item v
          \<longrightarrow> (JSON_parse ?br v = ParseThrows \<longrightarrow> outQueue (manager_state m) = [])"
    by blast
  from q have "outQueue (manager_state m) = []"
    by (simp add: example_arguments_def example_browser_def)
  with m show ?thesis
    by (auto simp: OutQueueManager_def Let_def example_arguments_def example_browser_def
        example_config_def example_state_def queueName_def js_def)
qed

section \<open>Requests that bypass the queue\<close>

text \<open>
  C10. A request of \<^verbatim>\<open>sendPostRequestWithoutQueueing\<close> leaves the queue and the store as
  they are when it is sent and when it completes, whatever the status. On a status
  outside 2xx the failure callback is called with \<^verbatim>\<open>willRetry = false\<close>; neither function
  reads the retry settings. On a 2xx status the success callback is called. The drain
  flag is not touched.
\<close>

theorem bypass_never_retries:
  "outQueue (sendPostRequestWithoutQueueing env body url s) = outQueue s
   \<and> storage (sendPostRequestWithoutQueueing env body url s) = storage s
   \<and> outQueue (bypass_onreadystatechange b st txt s) = outQueue s
   \<and> storage (bypass_onreadystatechange b st txt s) = storage s
   \<and> executingQueue (bypass_onreadystatechange b st txt s) = executingQueue s
   \<and> (\<not> isSuccessfulRequest st \<longrightarrow>
        effects (bypass_onreadystatechange b st txt s)
          = effects s @ [OnRequestFailure
              \<lparr>status = st, message = txt, events = b, willRetry = False\<rparr>])
   \<and> (isSuccessfulRequest st \<longrightarrow>
        effects (bypass_onreadystatechange b st txt s) = effects s @ [OnRequestSuccess b])"
  by (simp add: sendPostRequestWithoutQueueing_def bypass_onreadystatechange_def emit_def Let_def)

text \<open>
  A bypass request that ends with status 503 while a record waits in the queue: the
  failure is reported with \<^verbatim>\<open>willRetry = false\<close> and the queue is as before.
\<close>

theorem bypass_never_retries_witness:
  "effects (bypass_onreadystatechange (Events [[]]) 503 (js ''Service Unavailable'')
      (example_state\<lparr>outQueue := [PostRecord \<lparr>evt = [], bytes = 2\<rparr>],
         inflight := [Bypass (Events [[]])]\<rparr>))
     = [OnRequestFailure \<lparr>status = 503, message = js ''Service Unavailable'',
          events = Events [[]], willRetry = False\<rparr>]
   \<and> outQueue (bypass_onreadystatechange (Events [[]]) 503 (js ''Service Unavailable'')
      (example_state\<lparr>outQueue := [PostRecord \<lparr>evt = [], bytes = 2\<rparr>],
         inflight := [Bypass (Events [[]])]\<rparr>))
     = [PostRecord \<lparr>evt = [], bytes = 2\<rparr>]"
  using bypass_never_retries
          [of example_environment "\<lparr>evt = [], bytes = 2\<rparr>" "[]"
              "example_state\<lparr>outQueue := [PostRecord \<lparr>evt = [], bytes = 2\<rparr>],
                 inflight := [Bypass (Events [[]])]\<rparr>"
              "Events [[]]" 503 "js ''Service Unavailable''"]
  by (simp add: example_state_def isSuccessfulRequest_def)

end
